theory Spec2Isabelle
  imports Complex_Main "HOL-Library.Monad_Syntax"
begin

section \<open>Dense arrays\<close>

text \<open>
  The assemblers of \<^verbatim>\<open>src/core/solver\<close> work on numpy arrays of floats. An array of
  one axis is a list of reals, an array of two axes a list of rows. Arithmetic is the
  arithmetic of the reals: rounding is abstracted, so an equation proved here is the
  exact identity that the floating-point code approximates. Where numpy would raise
  on arrays of unequal shape the list operations truncate; the shapes the code feeds
  them (3, 6 and 12) are fixed by the Element Model.
\<close>

type_synonym vec = "real list"
type_synonym mat = "real list list"

definition zeros :: "nat \<Rightarrow> vec" where
  "zeros n = replicate n 0"

definition zeros2 :: "nat \<Rightarrow> nat \<Rightarrow> mat" where
  "zeros2 r c = replicate r (replicate c 0)"

definition ncols :: "mat \<Rightarrow> nat" where
  "ncols A = (case A of [] \<Rightarrow> 0 | r # _ \<Rightarrow> length r)"

definition vadd :: "vec \<Rightarrow> vec \<Rightarrow> vec" where
  "vadd u v = map2 (+) u v"

definition vsub :: "vec \<Rightarrow> vec \<Rightarrow> vec" where
  "vsub u v = map2 (-) u v"

definition vscale :: "vec \<Rightarrow> real \<Rightarrow> vec" where
  "vscale v c = map (\<lambda>x. x * c) v"

definition dot :: "vec \<Rightarrow> vec \<Rightarrow> real" where
  "dot u v = sum_list (map2 (*) u v)"

definition matvec :: "mat \<Rightarrow> vec \<Rightarrow> vec" where
  "matvec A v = map (\<lambda>row. dot row v) A"

definition col :: "mat \<Rightarrow> nat \<Rightarrow> vec" where
  "col A j = map (\<lambda>row. row ! j) A"

definition mat_T :: "mat \<Rightarrow> mat" where
  "mat_T A = map (col A) [0..<ncols A]"

definition matmul :: "mat \<Rightarrow> mat \<Rightarrow> mat" where
  "matmul A B = map (\<lambda>row. map (\<lambda>j. dot row (col B j)) [0..<ncols B]) A"

definition mat_add :: "mat \<Rightarrow> mat \<Rightarrow> mat" where
  "mat_add A B = map2 vadd A B"

definition mat_sub :: "mat \<Rightarrow> mat \<Rightarrow> mat" where
  "mat_sub A B = map2 vsub A B"

text \<open>\<^verbatim>\<open>v[a:b]\<close> and \<^verbatim>\<open>A[r0:r1, c0:c1]\<close>: Python slices, clipped to the array.\<close>

definition slice :: "vec \<Rightarrow> nat \<Rightarrow> nat \<Rightarrow> vec" where
  "slice v a b = take (b - a) (drop a v)"

definition block :: "mat \<Rightarrow> nat \<Rightarrow> nat \<Rightarrow> nat \<Rightarrow> nat \<Rightarrow> mat" where
  "block A r0 r1 c0 c1 = map (\<lambda>row. slice row c0 c1) (take (r1 - r0) (drop r0 A))"

text \<open>\<^verbatim>\<open>A[np.ix_(rs, cs)]\<close> and \<^verbatim>\<open>v[idx]\<close>: selection by index lists.\<close>

definition ix :: "mat \<Rightarrow> nat list \<Rightarrow> nat list \<Rightarrow> mat" where
  "ix A rs cs = map (\<lambda>i. map (\<lambda>j. A ! i ! j) cs) rs"

definition pick :: "vec \<Rightarrow> nat list \<Rightarrow> vec" where
  "pick v idx = map (\<lambda>i. v ! i) idx"

text \<open>\<^verbatim>\<open>v[idx] = vals\<close> and \<^verbatim>\<open>A[r, c] = x\<close>.\<close>

definition scatter :: "vec \<Rightarrow> nat list \<Rightarrow> vec \<Rightarrow> vec" where
  "scatter v idx vals = fold (\<lambda>(i, x) w. w[i := x]) (zip idx vals) v"

definition set_entry :: "mat \<Rightarrow> nat \<Rightarrow> nat \<Rightarrow> real \<Rightarrow> mat" where
  "set_entry A r c x = A[r := (A ! r)[c := x]]"

text \<open>\<^verbatim>\<open>np.max(np.abs(k))\<close>; every \<^verbatim>\<open>abs\<close> is at least 0, so the fold may start there.\<close>

definition max_abs :: "mat \<Rightarrow> real" where
  "max_abs k = fold max (map abs (concat k)) 0"

text \<open>Python's \<^verbatim>\<open>any\<close> over a list of flags.\<close>

fun py_any :: "bool list \<Rightarrow> bool" where
  "py_any [] = False"
| "py_any (b # bs) = (b \<or> py_any bs)"

section \<open>The external collaborators\<close>

text \<open>
  \<^verbatim>\<open>element_library\<close> (the Element Model) and numpy's \<^verbatim>\<open>linalg\<close> are not part of
  the sources; the assemblers are parametrised over them. \<^verbatim>\<open>get_local_stiffness_matrix\<close>
  takes \<^verbatim>\<open>E, G, A, J, I22, I33, As2, As3, L, L_tor\<close> in this order. \<^verbatim>\<open>np.linalg.inv\<close>
  and \<^verbatim>\<open>np.linalg.solve\<close> return \<open>None\<close> where numpy raises \<^verbatim>\<open>LinAlgError\<close>.
\<close>

record ext_lib =
  get_local_stiffness_matrix ::
    "real \<Rightarrow> real \<Rightarrow> real \<Rightarrow> real \<Rightarrow> real \<Rightarrow> real \<Rightarrow> real \<Rightarrow> real \<Rightarrow> real \<Rightarrow> real \<Rightarrow> mat"
  get_rotation_matrix :: "vec \<Rightarrow> vec \<Rightarrow> real \<Rightarrow> mat"
  get_eccentricity_matrix :: "vec \<Rightarrow> vec \<Rightarrow> mat"
  linalg_inv :: "mat \<Rightarrow> mat option"
  linalg_solve :: "mat \<Rightarrow> vec \<Rightarrow> vec option"

section \<open>Static condensation\<close>

text \<open>
  \<^verbatim>\<open>GlobalAssembler._condense_matrix\<close>. The release pair is concatenated, the kept and
  the released positions are listed, and with nothing released \<^verbatim>\<open>k\<close> is returned as it
  is. A singular released block returns \<^verbatim>\<open>k\<close> as well.
\<close>

definition rot_dofs :: "nat list" where
  "rot_dofs = [3, 4, 5, 9, 10, 11]"

definition condense_matrix :: "ext_lib \<Rightarrow> mat \<Rightarrow> bool list \<times> bool list \<Rightarrow> mat" where
  "condense_matrix X k rels =
     (let rel_vec = fst rels @ snd rels;
          idx_k = filter (\<lambda>i. \<not> rel_vec ! i) [0..<length rel_vec];
          idx_c = filter (\<lambda>i. rel_vec ! i) [0..<length rel_vec]
      in if idx_c = [] then k
         else
           let K_rr = ix k idx_k idx_k;
               K_rc = ix k idx_k idx_c;
               K_cr = ix k idx_c idx_k;
               K_cc = ix k idx_c idx_c
           in case linalg_inv X K_cc of
                None \<Rightarrow> k
              | Some K_cc_inv \<Rightarrow>
                  let K_new_small = mat_sub K_rr (matmul (matmul K_rc K_cc_inv) K_cr);
                      k_final =
                        fold (\<lambda>(r_i, old_r) kf.
                                fold (\<lambda>(c_i, old_c) kf'.
                                        set_entry kf' old_r old_c (K_new_small ! r_i ! c_i))
                                  (enumerate 0 idx_k) kf)
                          (enumerate 0 idx_k) (zeros2 12 12);
                      k_ref = max_abs k;
                      penalty = k_ref * (1 / 10 ^ 8)
                  in fold (\<lambda>(i, released) kf.
                             if released \<and> i \<in> set rot_dofs
                             then set_entry kf i i (kf ! i ! i + penalty) else kf)
                       (enumerate 0 rel_vec) k_final)"

text \<open>
  \<^verbatim>\<open>GlobalAssembler._condense_fef\<close>: the same partition; the kept entries lose
  \<^verbatim>\<open>K_kc @ (K_cc_inv @ F_c)\<close>, the released entries become zero.
\<close>

definition condense_fef :: "ext_lib \<Rightarrow> mat \<Rightarrow> vec \<Rightarrow> bool list \<times> bool list \<Rightarrow> vec" where
  "condense_fef X k_local fef_local rels =
     (let rel_vec = fst rels @ snd rels;
          idx_c = filter (\<lambda>i. rel_vec ! i) [0..<length rel_vec];
          idx_k = filter (\<lambda>i. \<not> rel_vec ! i) [0..<length rel_vec]
      in if idx_c = [] then fef_local
         else
           let K_cc = ix k_local idx_c idx_c;
               K_kc = ix k_local idx_k idx_c;
               F_k = pick fef_local idx_k;
               F_c = pick fef_local idx_c
           in case linalg_inv X K_cc of
                None \<Rightarrow> fef_local
              | Some K_cc_inv \<Rightarrow>
                  let correction = matvec K_kc (matvec K_cc_inv F_c);
                      F_k_new = vsub F_k correction;
                      fef_new = scatter (zeros 12) idx_k F_k_new
                  in scatter fef_new idx_c (replicate (length idx_c) 0))"

section \<open>The Data Model snapshot\<close>

text \<open>
  The dictionaries of the Data Model are records. A key that the code reads with
  \<^verbatim>\<open>.get(key, default)\<close> only is an option field; a key that the static assembler
  reads by subscript is a plain field. A dictionary of active patterns is an association
  list searched from its newest entry. A call that raises in Python (an index outside
  an array, a missing dictionary key, a slice of the wrong size, a division by zero)
  returns \<open>None\<close>.
\<close>

record material =
  mat_E :: real
  mat_G :: real
  mat_rho :: real

record section_props =
  sec_A :: real
  sec_J :: real
  sec_I22 :: real
  sec_I33 :: real
  sec_As2 :: real
  sec_As3 :: real

record element =
  el_id :: nat
  node_indices :: "nat \<times> nat"
  el_material :: material
  el_section :: section_props
  L_clear :: real
  L_total :: real
  releases :: "bool list \<times> bool list"
  offsets :: "vec \<times> vec"
  beta :: real
  end_off_i :: "real option"
  end_off_j :: "real option"

record node =
  nd_id :: nat
  coords :: vec

record load =
  ld_pattern :: string
  ld_type :: string
  ld_node_id :: nat
  ld_fx :: "real option"
  ld_fy :: "real option"
  ld_fz :: "real option"
  ld_element_id :: nat
  ld_wx :: real
  ld_wy :: real
  ld_wz :: real
  ld_coord :: "string option"
  ld_projected :: "bool option"
  ld_force :: real
  ld_dir :: string
  ld_dist :: real
  ld_is_rel :: bool

datatype pattern_item = ListItem string real | DictItem string real | OtherItem

record mass_source =
  ms_name :: string
  include_self_mass :: "bool option"
  include_patterns :: "bool option"
  load_patterns :: "pattern_item list option"

datatype registry = SourceList "mass_source list" | SourceDict "(string \<times> mass_source) list"

record data_manager =
  total_dofs :: nat
  nodes :: "node list"
  elements :: "element list"
  raw_loads :: "load list"
  raw_mass_sources :: registry
  load_case_patterns :: "(string \<times> real) list"
  node_id_to_idx :: "nat \<Rightarrow> nat option"
  build_load_vector :: vec

text \<open>\<^verbatim>\<open>self.dm.nodes[idx]['coords']\<close>, \<^verbatim>\<open>el.get('end_off_i', 0.0)\<close>, \<^verbatim>\<open>load.get('coord', 'Global')\<close>.\<close>

definition node_coords :: "data_manager \<Rightarrow> nat \<Rightarrow> vec option" where
  "node_coords dm i = (if i < length (nodes dm) then Some (coords (nodes dm ! i)) else None)"

definition get_or :: "'a option \<Rightarrow> 'a \<Rightarrow> 'a" where
  "get_or x d = (case x of None \<Rightarrow> d | Some v \<Rightarrow> v)"

definition any_release :: "element \<Rightarrow> bool" where
  "any_release el = (py_any (fst (releases el)) \<or> py_any (snd (releases el)))"

text \<open>
  \<^verbatim>\<open>next((e for e in self.dm.elements if e['id'] == load['element_id']), None)\<close>: the first
  element with the identifier.
\<close>

definition find_element :: "data_manager \<Rightarrow> nat \<Rightarrow> element option" where
  "find_element dm eid = find (\<lambda>e. el_id e = eid) (elements dm)"

section \<open>The sparse accumulators\<close>

text \<open>
  \<^verbatim>\<open>lil_matrix((n, n))\<close> is a function from positions to entries, zero where nothing was
  stored; its size \<open>n\<close> is \<^verbatim>\<open>total_dofs\<close>. A position outside the matrix, and a slice
  that does not fit, raise.
\<close>

type_synonym smat = "nat \<Rightarrow> nat \<Rightarrow> real"

definition smat_zero :: smat where
  "smat_zero = (\<lambda>i j. 0)"

definition add_entry :: "nat \<Rightarrow> smat \<Rightarrow> nat \<Rightarrow> nat \<Rightarrow> real \<Rightarrow> smat option" where
  "add_entry n M i j v =
     (if i < n \<and> j < n then Some (\<lambda>r c. if r = i \<and> c = j then M r c + v else M r c) else None)"

definition add_block :: "nat \<Rightarrow> smat \<Rightarrow> nat \<Rightarrow> nat \<Rightarrow> mat \<Rightarrow> smat option" where
  "add_block n K r0 c0 B =
     (if r0 + 6 \<le> n \<and> c0 + 6 \<le> n
      then Some (\<lambda>r c. if r0 \<le> r \<and> r < r0 + 6 \<and> c0 \<le> c \<and> c < c0 + 6
                        then K r c + B ! (r - r0) ! (c - c0) else K r c)
      else None)"

text \<open>\<^verbatim>\<open>F[i] += v\<close> and \<^verbatim>\<open>P[s:s+6] -= u\<close> on a dense vector.\<close>

definition vec_add_at :: "vec \<Rightarrow> nat \<Rightarrow> real \<Rightarrow> vec option" where
  "vec_add_at F i v = (if i < length F then Some (F[i := F ! i + v]) else None)"

definition sub_slice6 :: "vec \<Rightarrow> nat \<Rightarrow> vec \<Rightarrow> vec option" where
  "sub_slice6 P s u =
     (if s + 6 \<le> length P
      then Some (map (\<lambda>i. if s \<le> i \<and> i < s + 6 then P ! i - u ! (i - s) else P ! i) [0..<length P])
      else None)"

section \<open>Stiffness assembly\<close>

text \<open>
  The call of \<^verbatim>\<open>get_local_stiffness_matrix\<close> that \<^verbatim>\<open>_build_stiffness\<close> and
  \<^verbatim>\<open>_add_member_loads\<close> both make for an element.
\<close>

definition element_stiffness :: "ext_lib \<Rightarrow> element \<Rightarrow> mat" where
  "element_stiffness X el =
     (let m = el_material el; s = el_section el
      in get_local_stiffness_matrix X (mat_E m) (mat_G m) (sec_A s) (sec_J s)
           (sec_I22 s) (sec_I33 s) (sec_As2 s) (sec_As3 s) (L_clear el) (L_total el))"

text \<open>\<^verbatim>\<open>T[r0:r0+3, c0:c0+3] = R\<close> and the block-diagonal \<^verbatim>\<open>T_rot\<close> of four copies of \<^verbatim>\<open>R\<close>.\<close>

definition set_block3 :: "mat \<Rightarrow> nat \<Rightarrow> nat \<Rightarrow> mat \<Rightarrow> mat" where
  "set_block3 T r0 c0 R =
     map (\<lambda>r. map (\<lambda>c. if r0 \<le> r \<and> r < r0 + 3 \<and> c0 \<le> c \<and> c < c0 + 3
                       then R ! (r - r0) ! (c - c0) else T ! r ! c)
                 [0..<length (T ! r)])
       [0..<length T]"

definition T_rot_of :: "mat \<Rightarrow> mat" where
  "T_rot_of R = fold (\<lambda>i T. set_block3 T (i * 3) (i * 3) R) [0..<4] (zeros2 12 12)"

text \<open>\<^verbatim>\<open>v[0] += x\<close>.\<close>

definition add_first :: "vec \<Rightarrow> real \<Rightarrow> vec" where
  "add_first v x = v[0 := v ! 0 + x]"

text \<open>
  The transform of \<^verbatim>\<open>_build_stiffness\<close> (lines 54 to 77): the rotation is taken at the
  end points moved by the insertion offsets.
\<close>

definition stiffness_rotation :: "ext_lib \<Rightarrow> vec \<Rightarrow> vec \<Rightarrow> element \<Rightarrow> mat" where
  "stiffness_rotation X p1 p2 el =
     (let global_off_i = fst (offsets el);
          global_off_j = snd (offsets el);
          p1_adj = vadd p1 global_off_i;
          p2_adj = vadd p2 global_off_j
      in get_rotation_matrix X p1_adj p2_adj (beta el))"

definition total_transform :: "ext_lib \<Rightarrow> mat \<Rightarrow> element \<Rightarrow> mat" where
  "total_transform X R_3x3 el =
     (let T_rot = T_rot_of R_3x3;
          local_off_i = add_first (matvec R_3x3 (fst (offsets el))) (get_or (end_off_i el) 0);
          local_off_j = add_first (matvec R_3x3 (snd (offsets el))) (- get_or (end_off_j el) 0);
          T_ecc = get_eccentricity_matrix X local_off_i local_off_j
      in matmul T_ecc T_rot)"

definition stiffness_transform :: "ext_lib \<Rightarrow> vec \<Rightarrow> vec \<Rightarrow> element \<Rightarrow> mat" where
  "stiffness_transform X p1 p2 el = total_transform X (stiffness_rotation X p1 p2 el) el"

definition element_k_local :: "ext_lib \<Rightarrow> element \<Rightarrow> mat" where
  "element_k_local X el =
     (let k_local = element_stiffness X el
      in if any_release el then condense_matrix X k_local (releases el) else k_local)"

definition element_k_global :: "ext_lib \<Rightarrow> vec \<Rightarrow> vec \<Rightarrow> element \<Rightarrow> mat" where
  "element_k_global X p1 p2 el =
     (let k_local = element_k_local X el;
          T_total = stiffness_transform X p1 p2 el
      in matmul (matmul (mat_T T_total) k_local) T_total)"

text \<open>One pass of the loop of \<^verbatim>\<open>_build_stiffness\<close>, and the loop.\<close>

definition stiffness_step :: "ext_lib \<Rightarrow> data_manager \<Rightarrow> element \<Rightarrow> smat \<Rightarrow> smat option" where
  "stiffness_step X dm el K =
     (let idx_i = fst (node_indices el); idx_j = snd (node_indices el); n = total_dofs dm
      in do {
        p1 \<leftarrow> node_coords dm idx_i;
        p2 \<leftarrow> node_coords dm idx_j;
        let k_global = element_k_global X p1 p2 el;
        let start_i = idx_i * 6;
        let start_j = idx_j * 6;
        K1 \<leftarrow> add_block n K start_i start_i (block k_global 0 6 0 6);
        K2 \<leftarrow> add_block n K1 start_i start_j (block k_global 0 6 6 12);
        K3 \<leftarrow> add_block n K2 start_j start_i (block k_global 6 12 0 6);
        add_block n K3 start_j start_j (block k_global 6 12 6 12)
      })"

fun build_stiffness_loop :: "ext_lib \<Rightarrow> data_manager \<Rightarrow> element list \<Rightarrow> smat \<Rightarrow> smat option" where
  "build_stiffness_loop X dm [] K = Some K"
| "build_stiffness_loop X dm (el # els) K =
     Option.bind (stiffness_step X dm el K) (build_stiffness_loop X dm els)"

definition build_stiffness :: "ext_lib \<Rightarrow> data_manager \<Rightarrow> smat \<Rightarrow> smat option" where
  "build_stiffness X dm K = build_stiffness_loop X dm (elements dm) K"

section \<open>Fixed-end forces and the load vector\<close>

text \<open>\<^verbatim>\<open>v[a:b] = u\<close> and \<^verbatim>\<open>v[a:b] -= u\<close>, for \<^verbatim>\<open>u\<close> of the slice's size.\<close>

definition assign_slice :: "vec \<Rightarrow> nat \<Rightarrow> nat \<Rightarrow> vec \<Rightarrow> vec" where
  "assign_slice v a b u = map (\<lambda>i. if a \<le> i \<and> i < b then u ! (i - a) else v ! i) [0..<length v]"

definition sub_range :: "vec \<Rightarrow> nat \<Rightarrow> nat \<Rightarrow> vec \<Rightarrow> vec" where
  "sub_range v a b u = map (\<lambda>i. if a \<le> i \<and> i < b then v ! i - u ! (i - a) else v ! i) [0..<length v]"

text \<open>
  \<^verbatim>\<open>GlobalAssembler._get_exact_fef_via_stiffness\<close>: the member is cut at the load into
  sub-elements of lengths \<^verbatim>\<open>a\<close> and \<^verbatim>\<open>b = L - a\<close>; a zero length and a failed solve
  return twelve zeros.
\<close>

definition sub_element_stiffness :: "ext_lib \<Rightarrow> material \<Rightarrow> section_props \<Rightarrow> real \<Rightarrow> mat" where
  "sub_element_stiffness X m s len =
     get_local_stiffness_matrix X (mat_E m) (mat_G m) (sec_A s) (sec_J s)
       (sec_I22 s) (sec_I33 s) (sec_As2 s) (sec_As3 s) len len"

definition mid_stiffness :: "mat \<Rightarrow> mat \<Rightarrow> mat" where
  "mid_stiffness k_left k_right = mat_add (block k_left 6 12 6 12) (block k_right 0 6 0 6)"

definition mid_force :: "vec \<Rightarrow> vec" where
  "mid_force P_vec_local = assign_slice (zeros 6) 0 3 P_vec_local"

definition get_exact_fef_via_stiffness ::
  "ext_lib \<Rightarrow> real \<Rightarrow> real \<Rightarrow> vec \<Rightarrow> material \<Rightarrow> section_props \<Rightarrow> vec" where
  "get_exact_fef_via_stiffness X L a P_vec_local m s =
     (if L = 0 then zeros 12
      else
        let b = L - a;
            k_left = sub_element_stiffness X m s a;
            k_right = sub_element_stiffness X m s b;
            K_mid = mid_stiffness k_left k_right;
            F_mid = mid_force P_vec_local
        in case linalg_solve X K_mid F_mid of
             None \<Rightarrow> zeros 12
           | Some U_mid \<Rightarrow>
               let R_start = matvec (block k_left 0 6 6 12) U_mid;
                   R_end = matvec (block k_right 6 12 0 6) U_mid
               in assign_slice (assign_slice (zeros 12) 0 6 R_start) 6 12 R_end)"

text \<open>
  \<^verbatim>\<open>GlobalAssembler._apply_projection_factor\<close>, with the line it prints: the frame check
  comes first, then the vertical member, then the member of no length.
\<close>

datatype projection_msg = WarnNotGlobal | WarnVertical | WarnZeroLength | InfoProjected

definition apply_projection_factor ::
  "vec \<Rightarrow> vec \<Rightarrow> vec \<Rightarrow> real \<Rightarrow> string \<Rightarrow> vec \<times> projection_msg" where
  "apply_projection_factor w_local p1 p2 Lt coord_system =
     (if coord_system \<noteq> ''Global'' then (w_local, WarnNotGlobal)
      else
        let dx = p2 ! 0 - p1 ! 0;
            dy = p2 ! 1 - p1 ! 1;
            L_horizontal = sqrt (dx ^ 2 + dy ^ 2)
        in if L_horizontal < 1 / 10 ^ 9 then ([0, 0, 0], WarnVertical)
           else if Lt < 1 / 10 ^ 9 then (w_local, WarnZeroLength)
           else
             let proj_factor = L_horizontal / Lt
             in (vscale w_local proj_factor, InfoProjected))"

text \<open>
  \<^verbatim>\<open>GlobalAssembler._parse_load_direction\<close>. \<^verbatim>\<open>str.upper\<close> is taken on ASCII letters;
  \<^verbatim>\<open>sub in d\<close> is the search for a substring.
\<close>

definition upper_char :: "char \<Rightarrow> char" where
  "upper_char c =
     (let n = (of_char c :: nat) in if 97 \<le> n \<and> n \<le> 122 then char_of (n - 32) else c)"

fun starts_with :: "string \<Rightarrow> string \<Rightarrow> bool" where
  "starts_with s [] = True"
| "starts_with [] (p # ps) = False"
| "starts_with (c # cs) (p # ps) = (c = p \<and> starts_with cs ps)"

fun contains :: "string \<Rightarrow> string \<Rightarrow> bool" where
  "contains [] sub = (sub = [])"
| "contains (c # cs) sub = (starts_with (c # cs) sub \<or> contains cs sub)"

definition parse_load_direction :: "string \<Rightarrow> nat option \<times> real" where
  "parse_load_direction dir_str =
     (let d = map upper_char dir_str
      in if contains d ''GRAVITY'' then (Some 2, - 1)
         else if contains d ''X'' \<or> contains d ''1'' then (Some 0, 1)
         else if contains d ''Y'' \<or> contains d ''2'' then (Some 1, 1)
         else if contains d ''Z'' \<or> contains d ''3'' then (Some 2, 1)
         else (None, 0))"

text \<open>
  The local intensity of a distributed load (lines 252 to 266 of
  \<^verbatim>\<open>_add_member_loads\<close>) and its fixed-end forces (lines 268 to 277).
\<close>

definition dist_w_local :: "mat \<Rightarrow> load \<Rightarrow> real \<Rightarrow> vec \<Rightarrow> vec \<Rightarrow> real \<Rightarrow> vec" where
  "dist_w_local R_3x3 ld scale p1 p2 Lt =
     (let w_defined = vscale [ld_wx ld, ld_wy ld, ld_wz ld] scale;
          w_local = (if get_or (ld_coord ld) ''Global'' = ''Global''
                     then matvec R_3x3 w_defined else w_defined)
      in if get_or (ld_projected ld) False
         then fst (apply_projection_factor w_local p1 p2 Lt (get_or (ld_coord ld) ''Global''))
         else w_local)"

definition dist_fef_local :: "vec \<Rightarrow> real \<Rightarrow> vec" where
  "dist_fef_local w_local Lc =
     (let w_x = w_local ! 0; w_y = w_local ! 1; w_z = w_local ! 2
      in (zeros 12)
           [0 := - w_x * Lc / 2, 6 := - w_x * Lc / 2,
            1 := - w_y * Lc / 2, 7 := - w_y * Lc / 2,
            5 := - w_y * Lc ^ 2 / 12, 11 := w_y * Lc ^ 2 / 12,
            2 := - w_z * Lc / 2, 8 := - w_z * Lc / 2,
            4 := w_z * Lc ^ 2 / 12, 10 := - w_z * Lc ^ 2 / 12])"

text \<open>
  The fixed-end forces of a point load (lines 280 to 305). \<open>None\<close> is the \<^verbatim>\<open>continue\<close>
  on a direction that does not parse; a position outside the clear span leaves the
  twelve zeros.
\<close>

definition point_dist_raw :: "element \<Rightarrow> load \<Rightarrow> real" where
  "point_dist_raw el ld = (if ld_is_rel ld then ld_dist ld * L_total el else ld_dist ld)"

definition point_fef_local ::
  "ext_lib \<Rightarrow> element \<Rightarrow> load \<Rightarrow> real \<Rightarrow> mat \<Rightarrow> vec option" where
  "point_fef_local X el ld scale R_3x3 =
     (let P_val = ld_force ld * scale;
          ri = get_or (end_off_i el) 0;
          rj = get_or (end_off_j el) 0
      in case parse_load_direction (ld_dir ld) of
           (None, sign) \<Rightarrow> None
         | (Some idx_dir, sign) \<Rightarrow>
             let vec_defined = (zeros 3)[idx_dir := 1 * sign * P_val];
                 coord_sys = (if contains (map upper_char (ld_dir ld)) ''GRAVITY'' then ''Global''
                              else get_or (ld_coord ld) ''Global'');
                 P_local = (if coord_sys = ''Global'' then matvec R_3x3 vec_defined else vec_defined);
                 dist_raw = point_dist_raw el ld
             in if dist_raw \<ge> ri \<and> dist_raw \<le> L_total el - rj
                then Some (get_exact_fef_via_stiffness X (L_clear el) (dist_raw - ri) P_local
                             (el_material el) (el_section el))
                else Some (zeros 12))"

text \<open>
  The transform of \<^verbatim>\<open>_add_member_loads\<close>: lines 311 to 326 repeat lines 62 to 77 of
  \<^verbatim>\<open>_build_stiffness\<close>, but on the rotation of line 247, which is taken at the node
  coordinates themselves.
\<close>

definition load_rotation :: "ext_lib \<Rightarrow> vec \<Rightarrow> vec \<Rightarrow> element \<Rightarrow> mat" where
  "load_rotation X p1 p2 el = get_rotation_matrix X p1 p2 (beta el)"

definition load_transform :: "ext_lib \<Rightarrow> vec \<Rightarrow> vec \<Rightarrow> element \<Rightarrow> mat" where
  "load_transform X p1 p2 el = total_transform X (load_rotation X p1 p2 el) el"

text \<open>\<^verbatim>\<open>np.cross\<close> and the correction for rigid end lengths (lines 330 to 357).\<close>

definition cross3 :: "vec \<Rightarrow> vec \<Rightarrow> vec" where
  "cross3 a b = [a ! 1 * b ! 2 - a ! 2 * b ! 1, a ! 2 * b ! 0 - a ! 0 * b ! 2,
                 a ! 0 * b ! 1 - a ! 1 * b ! 0]"

definition rigid_end_correction ::
  "mat \<Rightarrow> vec \<Rightarrow> real \<Rightarrow> real \<Rightarrow> vec \<Rightarrow> vec \<Rightarrow> vec \<Rightarrow> vec" where
  "rigid_end_correction R_3x3 w ri rj loc_off_insertion_i loc_off_insertion_j fef_global =
     (let w3 = [w ! 0, w ! 1, w ! 2];
          f1 = (if ri > 0
                then
                  let F_rigid_i = vscale w3 ri;
                      centroid_i = vadd [ri / 2, 0, 0] loc_off_insertion_i;
                      M_rigid_i = cross3 centroid_i F_rigid_i
                  in sub_range (sub_range fef_global 0 3 (matvec (mat_T R_3x3) F_rigid_i))
                       3 6 (matvec (mat_T R_3x3) M_rigid_i)
                else fef_global)
      in if rj > 0
         then
           let F_rigid_j = vscale w3 rj;
               centroid_j = vadd [- rj / 2, 0, 0] loc_off_insertion_j;
               M_rigid_j = cross3 centroid_j F_rigid_j
           in sub_range (sub_range f1 6 9 (matvec (mat_T R_3x3) F_rigid_j))
                9 12 (matvec (mat_T R_3x3) M_rigid_j)
         else f1)"

text \<open>
  The global fixed-end forces of one member load on its element: \<open>None\<close> is the
  \<^verbatim>\<open>continue\<close> of the point-load branch.
\<close>

definition member_fef_global ::
  "ext_lib \<Rightarrow> element \<Rightarrow> load \<Rightarrow> real \<Rightarrow> vec \<Rightarrow> vec \<Rightarrow> vec option" where
  "member_fef_global X el ld scale p1 p2 =
     (let ri = get_or (end_off_i el) 0;
          rj = get_or (end_off_j el) 0;
          k_raw = element_stiffness X el;
          R_3x3 = load_rotation X p1 p2 el;
          w_vec_local_for_offset =
            (if ld_type ld = ''member_dist''
             then dist_w_local R_3x3 ld scale p1 p2 (L_total el) else zeros 3);
          fef0 = (if ld_type ld = ''member_dist''
                  then Some (dist_fef_local w_vec_local_for_offset (L_clear el))
                  else if ld_type ld = ''member_point''
                  then point_fef_local X el ld scale R_3x3
                  else Some (zeros 12))
      in case fef0 of
           None \<Rightarrow> None
         | Some fef_local \<Rightarrow>
             let fef_c = (if any_release el then condense_fef X k_raw fef_local (releases el)
                          else fef_local);
                 T_total = load_transform X p1 p2 el;
                 fef_global = matvec (mat_T T_total) fef_c
             in if ld_type ld = ''member_dist'' \<and> (ri > 0 \<or> rj > 0)
                then Some (rigid_end_correction R_3x3 w_vec_local_for_offset ri rj
                             (matvec R_3x3 (fst (offsets el))) (matvec R_3x3 (snd (offsets el)))
                             fef_global)
                else Some fef_global)"

text \<open>One pass of the loop of \<^verbatim>\<open>_add_member_loads\<close>, and the loop.\<close>

definition member_load_apply :: "vec \<Rightarrow> nat \<Rightarrow> nat \<Rightarrow> vec option \<Rightarrow> vec option" where
  "member_load_apply P idx_i idx_j fef =
     (case fef of
        None \<Rightarrow> Some P
      | Some fef_global \<Rightarrow>
          Option.bind (sub_slice6 P (idx_i * 6) (slice fef_global 0 6))
            (\<lambda>P1. sub_slice6 P1 (idx_j * 6) (slice fef_global 6 12)))"

definition member_load_on :: "ext_lib \<Rightarrow> data_manager \<Rightarrow> element \<Rightarrow> load \<Rightarrow> real \<Rightarrow> vec \<Rightarrow> vec option" where
  "member_load_on X dm el ld scale P =
     (let idx_i = fst (node_indices el); idx_j = snd (node_indices el)
      in Option.bind (node_coords dm idx_i) (\<lambda>p1.
         Option.bind (node_coords dm idx_j) (\<lambda>p2.
           member_load_apply P idx_i idx_j (member_fef_global X el ld scale p1 p2))))"

definition member_load_step :: "ext_lib \<Rightarrow> data_manager \<Rightarrow> load \<Rightarrow> vec \<Rightarrow> vec option" where
  "member_load_step X dm ld P =
     (case map_of (rev (load_case_patterns dm)) (ld_pattern ld) of
        None \<Rightarrow> Some P
      | Some scale \<Rightarrow>
          if ld_type ld \<noteq> ''member_dist'' \<and> ld_type ld \<noteq> ''member_point'' then Some P
          else
            (case find_element dm (ld_element_id ld) of
               None \<Rightarrow> Some P
             | Some el \<Rightarrow> member_load_on X dm el ld scale P))"

fun add_member_loads_loop :: "ext_lib \<Rightarrow> data_manager \<Rightarrow> load list \<Rightarrow> vec \<Rightarrow> vec option" where
  "add_member_loads_loop X dm [] P = Some P"
| "add_member_loads_loop X dm (ld # lds) P =
     Option.bind (member_load_step X dm ld P) (add_member_loads_loop X dm lds)"

definition add_member_loads :: "ext_lib \<Rightarrow> data_manager \<Rightarrow> vec \<Rightarrow> vec option" where
  "add_member_loads X dm P = add_member_loads_loop X dm (raw_loads dm) P"

text \<open>
  \<^verbatim>\<open>GlobalAssembler\<close>: the constructor creates \<^verbatim>\<open>K\<close> and \<^verbatim>\<open>P\<close> filled with zeros, and
  \<^verbatim>\<open>assemble_system\<close> works on the two fields and returns them. The debug sink
  \<^verbatim>\<open>MatrixSpy\<close> only records and is left out.
\<close>

record assembler =
  asm_K :: smat
  asm_P :: vec

definition new_assembler :: "data_manager \<Rightarrow> assembler" where
  "new_assembler dm = \<lparr>asm_K = smat_zero, asm_P = zeros (total_dofs dm)\<rparr>"

definition add_load_vector :: "vec \<Rightarrow> vec \<Rightarrow> vec option" where
  "add_load_vector P v = (if length v = length P then Some (vadd P v) else None)"

definition assemble_system :: "ext_lib \<Rightarrow> data_manager \<Rightarrow> assembler \<Rightarrow> assembler option" where
  "assemble_system X dm self = do {
     K' \<leftarrow> build_stiffness X dm (asm_K self);
     P1 \<leftarrow> add_load_vector (asm_P self) (build_load_vector dm);
     P2 \<leftarrow> add_member_loads X dm P1;
     Some \<lparr>asm_K = K', asm_P = P2\<rparr>
   }"

section \<open>Mass assembly\<close>

text \<open>
  \<^verbatim>\<open>GlobalMassAssembler\<close>: the constructor creates \<^verbatim>\<open>M\<close> filled with zeros and
  \<^verbatim>\<open>build_mass_matrix\<close> works on that field and returns it.
\<close>

definition g_accel :: real where
  "g_accel = 980665 / 100000"

definition find_mass_source :: "data_manager \<Rightarrow> string \<Rightarrow> mass_source option" where
  "find_mass_source dm name =
     (case raw_mass_sources dm of
        SourceList sources \<Rightarrow>
          (case find (\<lambda>s. ms_name s = name) sources of
             Some s \<Rightarrow> Some s
           | None \<Rightarrow>
               if name = ''Default''
               then (case sources of [] \<Rightarrow> None | s # rest \<Rightarrow> Some s)
               else None)
      | SourceDict sources \<Rightarrow>
          (case map_of sources name of
             Some s \<Rightarrow> Some s
           | None \<Rightarrow>
               if name = ''Default''
               then (case sources of [] \<Rightarrow> None | kv # rest \<Rightarrow> Some (snd kv))
               else None))"

text \<open>The three additions \<^verbatim>\<open>M[start_dof + d, start_dof + d] += v\<close> for \<^verbatim>\<open>d = 0, 1, 2\<close>.\<close>

definition add_node_mass :: "nat \<Rightarrow> smat \<Rightarrow> nat \<Rightarrow> real \<Rightarrow> smat option" where
  "add_node_mass n M start_dof v =
     Option.bind (add_entry n M (start_dof + 0) (start_dof + 0) v) (\<lambda>M1.
     Option.bind (add_entry n M1 (start_dof + 1) (start_dof + 1) v) (\<lambda>M2.
       add_entry n M2 (start_dof + 2) (start_dof + 2) v))"

text \<open>\<^verbatim>\<open>_add_element_self_mass\<close>: the loop body and the loop.\<close>

definition element_total_mass :: "element \<Rightarrow> real" where
  "element_total_mass el =
     (let A = sec_A (el_section el);
          rho = mat_rho (el_material el);
          L = L_total el;
          mass_density = rho / g_accel
      in A * mass_density * L)"

definition self_mass_step :: "data_manager \<Rightarrow> element \<Rightarrow> smat \<Rightarrow> smat option" where
  "self_mass_step dm el M =
     (let half_mass = element_total_mass el / 2
      in Option.bind (add_node_mass (total_dofs dm) M (fst (node_indices el) * 6) half_mass) (\<lambda>M1.
           add_node_mass (total_dofs dm) M1 (snd (node_indices el) * 6) half_mass))"

fun self_mass_loop :: "data_manager \<Rightarrow> element list \<Rightarrow> smat \<Rightarrow> smat option" where
  "self_mass_loop dm [] M = Some M"
| "self_mass_loop dm (el # els) M = Option.bind (self_mass_step dm el M) (self_mass_loop dm els)"

definition add_element_self_mass :: "data_manager \<Rightarrow> smat \<Rightarrow> smat option" where
  "add_element_self_mass dm M = self_mass_loop dm (elements dm) M"

text \<open>
  \<^verbatim>\<open>_add_mass_from_net_loads\<close>. The dictionary of active patterns, newest entry first;
  an item that is neither a list nor a dictionary is passed over.
\<close>

definition active_patterns_of :: "pattern_item list \<Rightarrow> (string \<times> real) list" where
  "active_patterns_of pattern_list =
     fold (\<lambda>item acc. case item of
                         ListItem name scale \<Rightarrow> (name, scale) # acc
                       | DictItem name scale \<Rightarrow> (name, scale) # acc
                       | OtherItem \<Rightarrow> acc)
       pattern_list []"

definition add3 :: "vec \<Rightarrow> nat \<Rightarrow> vec \<Rightarrow> vec option" where
  "add3 F dof v =
     Option.bind (vec_add_at F (dof + 0) (v ! 0)) (\<lambda>F1.
     Option.bind (vec_add_at F1 (dof + 1) (v ! 1)) (\<lambda>F2.
       vec_add_at F2 (dof + 2) (v ! 2)))"

text \<open>
  The rotation of the mass assembler is taken at the adjusted end points, as in
  \<^verbatim>\<open>_build_stiffness\<close>.
\<close>

definition mass_rotation :: "ext_lib \<Rightarrow> data_manager \<Rightarrow> element \<Rightarrow> mat option" where
  "mass_rotation X dm el =
     Option.bind (node_coords dm (fst (node_indices el))) (\<lambda>p1.
     Option.bind (node_coords dm (snd (node_indices el))) (\<lambda>p2.
       Some (stiffness_rotation X p1 p2 el)))"

definition net_nodal :: "data_manager \<Rightarrow> load \<Rightarrow> real \<Rightarrow> vec \<Rightarrow> vec option" where
  "net_nodal dm ld multiplier F =
     (case node_id_to_idx dm (ld_node_id ld) of
        None \<Rightarrow> None
      | Some node_idx \<Rightarrow>
          add3 F (node_idx * 6)
            [get_or (ld_fx ld) 0 * multiplier, get_or (ld_fy ld) 0 * multiplier,
             get_or (ld_fz ld) 0 * multiplier])"

definition net_member_dist :: "ext_lib \<Rightarrow> data_manager \<Rightarrow> load \<Rightarrow> real \<Rightarrow> vec \<Rightarrow> vec option" where
  "net_member_dist X dm ld multiplier F =
     (case find_element dm (ld_element_id ld) of
        None \<Rightarrow> Some F
      | Some el \<Rightarrow>
          let w_vec = [ld_wx ld, ld_wy ld, ld_wz ld]
          in Option.bind
               (if get_or (ld_coord ld) ''Global'' = ''Local''
                then map_option (\<lambda>R. matvec (mat_T R) w_vec) (mass_rotation X dm el)
                else Some w_vec)
               (\<lambda>w_global.
                  let F_total = vscale (vscale w_global (L_total el)) multiplier;
                      half = map (\<lambda>x. x / 2) F_total
                  in Option.bind (add3 F (fst (node_indices el) * 6) half)
                       (\<lambda>F1. add3 F1 (snd (node_indices el) * 6) half)))"

definition net_member_point :: "ext_lib \<Rightarrow> data_manager \<Rightarrow> load \<Rightarrow> real \<Rightarrow> vec \<Rightarrow> vec option" where
  "net_member_point X dm ld multiplier F =
     (case find_element dm (ld_element_id ld) of
        None \<Rightarrow> Some F
      | Some el \<Rightarrow>
          let force = ld_force ld;
              direction = ld_dir ld;
              coord = get_or (ld_coord ld) ''Global''
          in Option.bind
               (if direction = ''Gravity'' then Some ((zeros 3)[2 := - \<bar>force\<bar>])
                else if coord = ''Global''
                then Some ((zeros 3)[(if contains direction ''X'' then 0
                                      else if contains direction ''Y'' then 1 else 2) := force])
                else if coord = ''Local''
                then map_option
                       (\<lambda>R. matvec (mat_T R)
                               ((zeros 3)[(if contains direction ''1'' then 0
                                           else if contains direction ''2'' then 1 else 2) := force]))
                       (mass_rotation X dm el)
                else Some (zeros 3))
               (\<lambda>F_vec.
                  let F_vec_global = vscale F_vec multiplier
                  in Option.bind
                       (if \<not> ld_is_rel ld
                        then (if L_total el = 0 then None else Some (ld_dist ld / L_total el))
                        else Some (ld_dist ld))
                       (\<lambda>dist.
                          Option.bind
                            (add3 F (fst (node_indices el) * 6) (vscale F_vec_global (1 - dist)))
                            (\<lambda>F1. add3 F1 (snd (node_indices el) * 6) (vscale F_vec_global dist)))))"

definition net_load_step ::
  "ext_lib \<Rightarrow> data_manager \<Rightarrow> (string \<times> real) list \<Rightarrow> load \<Rightarrow> vec \<Rightarrow> vec option" where
  "net_load_step X dm active ld F =
     (case map_of active (ld_pattern ld) of
        None \<Rightarrow> Some F
      | Some multiplier \<Rightarrow>
          if ld_type ld = ''nodal'' then net_nodal dm ld multiplier F
          else if ld_type ld = ''member_dist'' then net_member_dist X dm ld multiplier F
          else if ld_type ld = ''member_point'' then net_member_point X dm ld multiplier F
          else Some F)"

fun net_load_loop ::
  "ext_lib \<Rightarrow> data_manager \<Rightarrow> (string \<times> real) list \<Rightarrow> load list \<Rightarrow> vec \<Rightarrow> vec option" where
  "net_load_loop X dm active [] F = Some F"
| "net_load_loop X dm active (ld # lds) F =
     Option.bind (net_load_step X dm active ld F) (net_load_loop X dm active lds)"

text \<open>
  The accumulated net force \<^verbatim>\<open>F_accum\<close> at line 154: zeros of size \<^verbatim>\<open>total_dofs\<close>
  taken through the loop over the loads.
\<close>

definition net_forces :: "ext_lib \<Rightarrow> data_manager \<Rightarrow> (string \<times> real) list \<Rightarrow> vec option" where
  "net_forces X dm active = net_load_loop X dm active (raw_loads dm) (zeros (total_dofs dm))"

text \<open>
  \<^verbatim>\<open>range(start, stop, step)\<close> for a positive step, and the conversion of lines 157
  to 166: one pass for each \<^verbatim>\<open>i\<close> in \<^verbatim>\<open>range(2, total_dofs, 6)\<close>.
\<close>

definition py_range :: "nat \<Rightarrow> nat \<Rightarrow> nat \<Rightarrow> nat list" where
  "py_range start stop step = map (\<lambda>k. start + step * k) [0..<(stop - start + step - 1) div step]"

definition net_mass_step :: "nat \<Rightarrow> vec \<Rightarrow> nat \<Rightarrow> smat \<Rightarrow> smat option" where
  "net_mass_step n F_accum i M =
     (let Fz_net = F_accum ! i
      in if Fz_net < - (1 / 10 ^ 5)
         then
           let mass_val = \<bar>Fz_net\<bar> / g_accel
           in Option.bind (add_entry n M (i - 2) (i - 2) mass_val) (\<lambda>M1.
              Option.bind (add_entry n M1 (i - 1) (i - 1) mass_val) (\<lambda>M2.
                add_entry n M2 i i mass_val))
         else Some M)"

fun net_mass_loop :: "nat \<Rightarrow> vec \<Rightarrow> nat list \<Rightarrow> smat \<Rightarrow> smat option" where
  "net_mass_loop n F_accum [] M = Some M"
| "net_mass_loop n F_accum (i # rest) M =
     Option.bind (net_mass_step n F_accum i M) (net_mass_loop n F_accum rest)"

definition add_mass_from_net_loads ::
  "ext_lib \<Rightarrow> data_manager \<Rightarrow> pattern_item list \<Rightarrow> smat \<Rightarrow> smat option" where
  "add_mass_from_net_loads X dm pattern_list M =
     (let active = active_patterns_of pattern_list
      in if active = [] then Some M
         else Option.bind (net_forces X dm active)
                (\<lambda>F_accum. net_mass_loop (total_dofs dm) F_accum (py_range 2 (total_dofs dm) 6) M))"

definition build_mass_matrix :: "ext_lib \<Rightarrow> data_manager \<Rightarrow> string \<Rightarrow> smat \<Rightarrow> smat option" where
  "build_mass_matrix X dm mass_source_name M =
     (case find_mass_source dm mass_source_name of
        None \<Rightarrow> Some M
      | Some ms_def \<Rightarrow>
          Option.bind
            (if get_or (include_self_mass ms_def) True then add_element_self_mass dm M else Some M)
            (\<lambda>M1. if get_or (include_patterns ms_def) False
                   then add_mass_from_net_loads X dm (get_or (load_patterns ms_def) []) M1
                   else Some M1))"

section \<open>Shapes, symmetry and an instance of the collaborators\<close>

definition is_mat :: "nat \<Rightarrow> nat \<Rightarrow> mat \<Rightarrow> bool" where
  "is_mat r c A = (length A = r \<and> list_all (\<lambda>row. length row = c) A)"

definition symmetric :: "mat \<Rightarrow> bool" where
  "symmetric A = (mat_T A = A)"

text \<open>
  An instance of the Element Model and of numpy on which the assemblers can be run: the
  stiffness of twelve uncoupled bars of rigidity \<^verbatim>\<open>E*A/L\<close>, the direction-cosine
  rotation of a member that is not vertical (without roll), no eccentricity, an
  inversion that always fails, and a solver for diagonal systems.
\<close>

definition identity_mat :: "nat \<Rightarrow> mat" where
  "identity_mat n = map (\<lambda>i. map (\<lambda>j. if i = j then 1 else 0) [0..<n]) [0..<n]"

definition bar_stiffness :: "real \<Rightarrow> mat" where
  "bar_stiffness c =
     map (\<lambda>i. map (\<lambda>j. if i = j then c else if i = j + 6 \<or> j = i + 6 then - c else 0) [0..<12])
       [0..<12]"

definition cosine_rotation :: "vec \<Rightarrow> vec \<Rightarrow> real \<Rightarrow> mat" where
  "cosine_rotation p1 p2 b =
     (let d = vsub p2 p1;
          L = sqrt (dot d d);
          Lh = sqrt (d ! 0 ^ 2 + d ! 1 ^ 2);
          cx = d ! 0 / L; cy = d ! 1 / L; cz = d ! 2 / L
      in [[cx, cy, cz],
          [- (d ! 1) / Lh, d ! 0 / Lh, 0],
          [- (cz * d ! 0) / Lh, - (cz * d ! 1) / Lh, Lh / L]])"

definition diag_solve :: "mat \<Rightarrow> vec \<Rightarrow> vec option" where
  "diag_solve A b =
     (if length A = length b \<and>
         list_all (\<lambda>i. length (A ! i) = length b \<and> A ! i ! i \<noteq> 0 \<and>
                        list_all (\<lambda>j. j = i \<or> A ! i ! j = 0) [0..<length b])
           [0..<length b]
      then Some (map (\<lambda>i. b ! i / A ! i ! i) [0..<length b])
      else None)"

definition example_lib :: ext_lib where
  "example_lib =
     \<lparr>get_local_stiffness_matrix = (\<lambda>E G A J I22 I33 As2 As3 L L_tor. bar_stiffness (E * A / L)),
      get_rotation_matrix = cosine_rotation,
      get_eccentricity_matrix = (\<lambda>offset_i offset_j. identity_mat 12),
      linalg_inv = (\<lambda>A. None),
      linalg_solve = diag_solve\<rparr>"

text \<open>
  A model of two nodes four units apart on the global X axis, joined by one element
  of unit section and unit stiffness whose weight density equals \<^verbatim>\<open>g\<close>.
\<close>

definition no_release :: "bool list \<times> bool list" where
  "no_release = (replicate 6 False, replicate 6 False)"

definition example_element :: element where
  "example_element =
     \<lparr>el_id = 1, node_indices = (0, 1),
      el_material = \<lparr>mat_E = 1, mat_G = 1, mat_rho = 980665 / 100000\<rparr>,
      el_section = \<lparr>sec_A = 1, sec_J = 1, sec_I22 = 1, sec_I33 = 1, sec_As2 = 1, sec_As3 = 1\<rparr>,
      L_clear = 4, L_total = 4, releases = no_release,
      offsets = ([0, 0, 0], [0, 0, 0]), beta = 0, end_off_i = None, end_off_j = None\<rparr>"

definition example_source :: mass_source where
  "example_source =
     \<lparr>ms_name = ''Default'', include_self_mass = Some True, include_patterns = None,
      load_patterns = None\<rparr>"

definition example_dm :: data_manager where
  "example_dm =
     \<lparr>total_dofs = 12,
      nodes = [\<lparr>nd_id = 1, coords = [0, 0, 0]\<rparr>, \<lparr>nd_id = 2, coords = [4, 0, 0]\<rparr>],
      elements = [example_element],
      raw_loads = [],
      raw_mass_sources = SourceList [example_source],
      load_case_patterns = [],
      node_id_to_idx = [1 \<mapsto> 0, 2 \<mapsto> 1],
      build_load_vector = zeros 12\<rparr>"

text \<open>
  The contracts of the collaborators that the properties below assume: the Element
  Model returns arrays of the shapes it documents, and a solution returned by
  \<^verbatim>\<open>np.linalg.solve\<close> solves the system.
\<close>

definition element_model_shapes :: "ext_lib \<Rightarrow> bool" where
  "element_model_shapes X =
     ((\<forall>E G A J I22 I33 As2 As3 L L_tor.
         is_mat 12 12 (get_local_stiffness_matrix X E G A J I22 I33 As2 As3 L L_tor)) \<and>
      (\<forall>p1 p2 b. is_mat 3 3 (get_rotation_matrix X p1 p2 b)) \<and>
      (\<forall>offset_i offset_j. is_mat 12 12 (get_eccentricity_matrix X offset_i offset_j)))"

definition solves_linear_systems :: "ext_lib \<Rightarrow> bool" where
  "solves_linear_systems X = (\<forall>A b u. linalg_solve X A b = Some u \<longrightarrow> matvec A u = b)"

text \<open>The horizontal (XY) and the full distance between two points.\<close>

definition horizontal_length :: "vec \<Rightarrow> vec \<Rightarrow> real" where
  "horizontal_length p1 p2 = sqrt ((p2 ! 0 - p1 ! 0) ^ 2 + (p2 ! 1 - p1 ! 1) ^ 2)"

definition member_length :: "vec \<Rightarrow> vec \<Rightarrow> real" where
  "member_length p1 p2 =
     sqrt ((p2 ! 0 - p1 ! 0) ^ 2 + (p2 ! 1 - p1 ! 1) ^ 2 + (p2 ! 2 - p1 ! 2) ^ 2)"

text \<open>
  A member of no section area, whose two-segment system is singular, under a point
  load at mid-span.
\<close>

definition zero_area_element :: element where
  "zero_area_element = example_element\<lparr>el_section := (el_section example_element)\<lparr>sec_A := 0\<rparr>\<rparr>"

definition point_load :: load where
  "point_load =
     \<lparr>ld_pattern = ''LIVE'', ld_type = ''member_point'', ld_node_id = 0,
      ld_fx = None, ld_fy = None, ld_fz = None, ld_element_id = 1,
      ld_wx = 0, ld_wy = 0, ld_wz = 0, ld_coord = Some ''Local'', ld_projected = None,
      ld_force = 2, ld_dir = ''1'', ld_dist = 1 / 2, ld_is_rel = True\<rparr>"

definition zero_area_dm :: data_manager where
  "zero_area_dm =
     example_dm\<lparr>elements := [zero_area_element], raw_loads := [point_load],
       load_case_patterns := [(''LIVE'', 1)]\<rparr>"

section \<open>Properties\<close>

lemma py_any_set: "py_any bs \<longleftrightarrow> True \<in> set bs"
  by (induction bs) auto

lemma no_flag_no_released:
  assumes "\<not> py_any r0" and "\<not> py_any r1"
  shows "filter (\<lambda>i. (r0 @ r1) ! i) [0..<length (r0 @ r1)] = []"
proof -
  have "\<not> (r0 @ r1) ! i" if "i < length (r0 @ r1)" for i
  proof
    assume "(r0 @ r1) ! i"
    with that have "True \<in> set (r0 @ r1)"
      using nth_mem [of i "r0 @ r1"] by simp
    with assms show False
      by (simp add: py_any_set)
  qed
  then show ?thesis
    by (simp add: filter_empty_conv)
qed

text \<open>
  C5. With no flag set in either half of the release pair, \<^verbatim>\<open>_condense_matrix\<close>
  returns the stiffness matrix it was given and \<^verbatim>\<open>_condense_fef\<close> returns the
  fixed-end-force vector it was given, whatever the matrix, the vector and the
  inversion routine are.
\<close>

theorem condense_identity_without_releases:
  assumes "\<not> py_any (fst rels)" and "\<not> py_any (snd rels)"
  shows "condense_matrix X k rels = k \<and> condense_fef X k f rels = f"
  using no_flag_no_released [OF assms]
  by (simp add: condense_matrix_def condense_fef_def)

theorem condense_identity_without_releases_witness:
  "\<not> py_any (fst no_release) \<and> \<not> py_any (snd no_release) \<and>
   condense_matrix example_lib (bar_stiffness 1) no_release = bar_stiffness 1 \<and>
   condense_fef example_lib (bar_stiffness 1) (zeros 12) no_release = zeros 12"
proof -
  have h1: "\<not> py_any (fst no_release)" and h2: "\<not> py_any (snd no_release)"
    by (simp_all add: no_release_def py_any_set)
  from condense_identity_without_releases [OF h1 h2] h1 h2 show ?thesis
    by blast
qed


subsection \<open>Zero vectors through the load path\<close>

lemma dot_zero_right: "dot row (replicate n 0) = 0"
proof -
  have "map2 (*) row (replicate n (0::real)) = replicate (min (length row) n) 0"
    by (induction row arbitrary: n) (auto simp: Suc_length_conv split: nat.splits; case_tac n; simp)+
  then show ?thesis by (simp add: dot_def sum_list_replicate)
qed

lemma matvec_zero: "matvec A (replicate n 0) = replicate (length A) 0"
  by (simp add: matvec_def dot_zero_right map_replicate_const)

lemma update_zero_replicate: "(replicate n (0::real))[i := 0] = replicate n 0"
proof (cases "i < n")
  case True
  then show ?thesis by (simp add: list_update_same_conv)
next
  case False
  then show ?thesis by (simp add: list_update_beyond)
qed

lemma scatter_zero:
  "set vals \<subseteq> {0} \<Longrightarrow> scatter (replicate n 0) idx vals = replicate n 0"
  unfolding scatter_def
proof (induction idx arbitrary: vals)
  case Nil
  then show ?case by simp
next
  case (Cons i idx)
  then show ?case
    by (cases vals) (auto simp: update_zero_replicate)
qed

lemma scatter_zero_replicate: "scatter (replicate n 0) idx (replicate m 0) = replicate n 0"
  by (rule scatter_zero) auto

lemma pick_zero: "\<forall>i\<in>set idx. i < n \<Longrightarrow> pick (replicate n 0) idx = replicate (length idx) 0"
  by (simp add: pick_def list_eq_iff_nth_eq)

lemma vsub_zero: "vsub (replicate n 0) (replicate m 0) = replicate (min n m) 0"
  by (simp add: vsub_def list_eq_iff_nth_eq)

lemma condense_fef_zero:
  assumes "length (fst rels) + length (snd rels) \<le> 12"
  shows "condense_fef X k (zeros 12) rels = zeros 12"
proof -
  define rv where "rv = fst rels @ snd rels"
  define idx_c where "idx_c = filter (\<lambda>i. rv ! i) [0..<length rv]"
  define idx_k where "idx_k = filter (\<lambda>i. \<not> rv ! i) [0..<length rv]"
  have c: "\<forall>i\<in>set idx_c. i < 12" and k: "\<forall>i\<in>set idx_k. i < 12"
    using assms by (auto simp: idx_c_def idx_k_def rv_def)
  have inner: "scatter (scatter (replicate 12 0) idx_k
                 (vsub (pick (replicate 12 0) idx_k)
                    (matvec (ix k idx_k idx_c) (matvec Ki (pick (replicate 12 0) idx_c)))))
               idx_c (replicate (length idx_c) 0) = replicate 12 0" for Ki
    by (simp add: pick_zero [OF c] pick_zero [OF k] matvec_zero vsub_zero scatter_zero_replicate)
  show ?thesis
    unfolding condense_fef_def Let_def zeros_def rv_def [symmetric] idx_c_def [symmetric]
      idx_k_def [symmetric]
    by (simp add: inner split: option.splits)
qed

lemma length_set_block3: "length (set_block3 T r c R) = length T"
  by (simp add: set_block3_def)

lemma row_length_set_block3: "i < length T \<Longrightarrow> length (set_block3 T r c R ! i) = length (T ! i)"
  by (simp add: set_block3_def)

lemma is_mat_set_block3: "is_mat m n T \<Longrightarrow> is_mat m n (set_block3 T r c R)"
  by (auto simp: is_mat_def list_all_length length_set_block3 row_length_set_block3)

lemma is_mat_zeros2: "is_mat m n (zeros2 m n)"
  by (simp add: is_mat_def zeros2_def list_all_length)

lemma is_mat_T_rot: "is_mat 12 12 (T_rot_of R)"
proof -
  have "is_mat 12 12 (fold (\<lambda>i T. set_block3 T (i * 3) (i * 3) R) xs T)" if "is_mat 12 12 T" for xs T
    using that by (induction xs arbitrary: T) (simp_all add: is_mat_set_block3)
  then show ?thesis
    unfolding T_rot_of_def using is_mat_zeros2 by blast
qed

lemma ncols_is_mat: "is_mat m n A \<Longrightarrow> 0 < m \<Longrightarrow> ncols A = n"
  by (cases A) (simp_all add: is_mat_def ncols_def)

lemma length_matmul: "length (matmul A B) = length A"
  by (simp add: matmul_def)

lemma is_mat_matmul:
  assumes "is_mat m n B" and "0 < m"
  shows "is_mat (length A) n (matmul A B)"
proof -
  have "ncols B = n"
    using assms by (rule ncols_is_mat)
  then show ?thesis
    by (simp add: is_mat_def matmul_def list_all_length)
qed

lemma is_mat_mat_T:
  assumes "is_mat m n A" and "0 < m"
  shows "is_mat n m (mat_T A)"
proof -
  have "ncols A = n"
    using assms by (rule ncols_is_mat)
  moreover have "length A = m"
    using assms by (simp add: is_mat_def)
  ultimately show ?thesis
    by (simp add: is_mat_def mat_T_def col_def list_all_length)
qed

lemma is_mat_total_transform:
  assumes "length (get_eccentricity_matrix X a b) = 12"
  shows "is_mat 12 12 (matmul (get_eccentricity_matrix X a b) (T_rot_of R))"
  using is_mat_matmul [OF is_mat_T_rot, of "get_eccentricity_matrix X a b" R] assms by simp

lemma matvec_T_zero:
  assumes "is_mat 12 12 T"
  shows "matvec (mat_T T) (zeros 12) = zeros 12"
proof -
  have "length (mat_T T) = 12"
    using is_mat_mat_T [OF assms] by (simp add: is_mat_def)
  then show ?thesis
    by (simp add: zeros_def matvec_zero)
qed

lemma slice_zeros: "slice (zeros n) a b = replicate (min (b - a) (n - a)) 0"
  by (simp add: slice_def zeros_def min.commute)

lemma sub_slice6_zero:
  assumes "s + 6 \<le> length P"
  shows "sub_slice6 P s (replicate 6 0) = Some P"
proof -
  have "map (\<lambda>i. if s \<le> i \<and> i < s + 6 then P ! i - replicate 6 0 ! (i - s) else P ! i)
          [0..<length P] = map ((!) P) [0..<length P]"
    by (rule map_cong) auto
  then show ?thesis
    using assms by (simp add: sub_slice6_def map_nth)
qed

lemma exact_zero:
  assumes "L = 0 \<or> (\<forall>F. linalg_solve X
             (mid_stiffness (sub_element_stiffness X m s a) (sub_element_stiffness X m s (L - a))) F = None)"
  shows "get_exact_fef_via_stiffness X L a Pv m s = zeros 12"
  using assms by (auto simp: get_exact_fef_via_stiffness_def Let_def)

lemma point_fef_local_zero:
  assumes "L_clear el = 0 \<or> (\<forall>F. linalg_solve X
             (mid_stiffness
                (sub_element_stiffness X (el_material el) (el_section el)
                   (point_dist_raw el ld - get_or (end_off_i el) 0))
                (sub_element_stiffness X (el_material el) (el_section el)
                   (L_clear el - (point_dist_raw el ld - get_or (end_off_i el) 0)))) F = None)"
  shows "point_fef_local X el ld scale R = None \<or> point_fef_local X el ld scale R = Some (zeros 12)"
  unfolding point_fef_local_def Let_def
  by (simp add: exact_zero [OF assms] split: prod.splits option.splits)

lemma member_load_apply_zero:
  assumes "i * 6 + 6 \<le> length P" and "j * 6 + 6 \<le> length P"
  shows "member_load_apply P i j (Some (zeros 12)) = Some P"
  using assms by (simp add: member_load_apply_def slice_zeros sub_slice6_zero)

lemma member_fef_global_zero:
  assumes pt: "ld_type ld = ''member_point''"
    and z: "point_fef_local X el ld scale (load_rotation X p1 p2 el) = None \<or>
            point_fef_local X el ld scale (load_rotation X p1 p2 el) = Some (zeros 12)"
    and rel: "length (fst (releases el)) + length (snd (releases el)) \<le> 12"
    and ecc: "\<And>u v. length (get_eccentricity_matrix X u v) = 12"
  shows "member_fef_global X el ld scale p1 p2 = None \<or>
         member_fef_global X el ld scale p1 p2 = Some (zeros 12)"
proof -
  have T: "matvec (mat_T (load_transform X p1 p2 el)) (zeros 12) = zeros 12"
    unfolding load_transform_def total_transform_def Let_def
    by (rule matvec_T_zero) (rule is_mat_total_transform, rule ecc)
  from z show ?thesis
  proof
    assume "point_fef_local X el ld scale (load_rotation X p1 p2 el) = None"
    then show ?thesis
      by (simp add: member_fef_global_def Let_def pt)
  next
    assume "point_fef_local X el ld scale (load_rotation X p1 p2 el) = Some (zeros 12)"
    then show ?thesis
      by (simp add: member_fef_global_def Let_def pt condense_fef_zero [OF rel] T)
  qed
qed

subsection \<open>The instance satisfies the contracts\<close>

lemma upt_12: "[0..<12] = [0, 1, 2, 3, 4, 5, 6, 7, 8, 9, 10, 11]"
  by (simp add: upt_rec)

lemma sqrt_25: "sqrt 25 = 5"
  by (rule real_sqrt_unique) simp_all

lemma is_mat_bar: "is_mat 12 12 (bar_stiffness c)"
  by (simp add: is_mat_def bar_stiffness_def list_all_length)

lemma is_mat_identity: "is_mat n n (identity_mat n)"
  by (simp add: is_mat_def identity_mat_def list_all_length)

lemma is_mat_cosine: "is_mat 3 3 (cosine_rotation p q b)"
  by (simp add: is_mat_def cosine_rotation_def Let_def)

lemma example_shapes: "element_model_shapes example_lib"
  by (simp add: element_model_shapes_def example_lib_def is_mat_bar is_mat_identity is_mat_cosine)

lemma diag_solve_singular: "A \<noteq> [] \<Longrightarrow> A ! 0 ! 0 = 0 \<Longrightarrow> diag_solve A F = None"
  by (cases F) (auto simp: diag_solve_def upt_rec)

lemma mid_stiffness_no_area:
  "mid_stiffness (bar_stiffness 0) (bar_stiffness 0) \<noteq> [] \<and>
   mid_stiffness (bar_stiffness 0) (bar_stiffness 0) ! 0 ! 0 = 0"
  by (simp add: mid_stiffness_def bar_stiffness_def block_def slice_def mat_add_def vadd_def upt_12)

subsection \<open>Claims\<close>

text \<open>
  C10. When the member has clear length zero, or the solve of the two-segment system
  fails for every right-hand side, \<^verbatim>\<open>_get_exact_fef_via_stiffness\<close> returns twelve zeros;
  the pass of \<^verbatim>\<open>_add_member_loads\<close> for that point load then returns without raising and
  leaves the load vector as it was. The element's nodes exist, the load vector has six
  entries for each node, the release pair has at most twelve flags and the Element Model
  returns arrays of its documented shapes.
\<close>

theorem singular_point_load_contributes_nothing:
  assumes pt: "ld_type ld = ''member_point''"
    and el: "find_element dm (ld_element_id ld) = Some el"
    and sing: "L_clear el = 0 \<or> (\<forall>F. linalg_solve X
             (mid_stiffness
                (sub_element_stiffness X (el_material el) (el_section el)
                   (point_dist_raw el ld - get_or (end_off_i el) 0))
                (sub_element_stiffness X (el_material el) (el_section el)
                   (L_clear el - (point_dist_raw el ld - get_or (end_off_i el) 0)))) F = None)"
    and rel: "length (fst (releases el)) + length (snd (releases el)) \<le> 12"
    and shapes: "element_model_shapes X"
    and ni: "fst (node_indices el) < length (nodes dm)"
    and nj: "snd (node_indices el) < length (nodes dm)"
    and len: "length P = 6 * length (nodes dm)"
  shows "get_exact_fef_via_stiffness X (L_clear el)
           (point_dist_raw el ld - get_or (end_off_i el) 0) Pv (el_material el) (el_section el)
         = zeros 12 \<and>
         member_load_step X dm ld P = Some P"
proof -
  have ecc: "length (get_eccentricity_matrix X u v) = 12" for u v
    using shapes by (simp add: element_model_shapes_def is_mat_def)
  have bi: "fst (node_indices el) * 6 + 6 \<le> length P"
    and bj: "snd (node_indices el) * 6 + 6 \<le> length P"
    using ni nj len by simp_all
  have on: "member_load_on X dm el ld scale P = Some P" for scale
  proof -
    let ?p1 = "coords (nodes dm ! fst (node_indices el))"
    let ?p2 = "coords (nodes dm ! snd (node_indices el))"
    have "member_fef_global X el ld scale ?p1 ?p2 = None \<or>
          member_fef_global X el ld scale ?p1 ?p2 = Some (zeros 12)"
      by (rule member_fef_global_zero [OF pt point_fef_local_zero [OF sing] rel ecc])
    then have "member_load_apply P (fst (node_indices el)) (snd (node_indices el))
                 (member_fef_global X el ld scale ?p1 ?p2) = Some P"
      using member_load_apply_zero [OF bi bj] by (auto simp: member_load_apply_def)
    then show ?thesis
      using ni nj by (simp add: member_load_on_def node_coords_def Let_def)
  qed
  have "member_load_step X dm ld P = Some P"
    by (simp add: member_load_step_def el on split: option.splits)
  with exact_zero [OF sing] show ?thesis
    by simp
qed

theorem singular_point_load_contributes_nothing_witness:
  "ld_type point_load = ''member_point'' \<and>
   find_element zero_area_dm (ld_element_id point_load) = Some zero_area_element \<and>
   element_model_shapes example_lib \<and>
   get_exact_fef_via_stiffness example_lib (L_clear zero_area_element)
     (point_dist_raw zero_area_element point_load - get_or (end_off_i zero_area_element) 0) [2, 0, 0]
     (el_material zero_area_element) (el_section zero_area_element) = zeros 12 \<and>
   member_load_step example_lib zero_area_dm point_load (zeros 12) = Some (zeros 12)"
proof -
  have pt: "ld_type point_load = ''member_point''"
    by (simp add: point_load_def)
  have el: "find_element zero_area_dm (ld_element_id point_load) = Some zero_area_element"
    by (simp add: find_element_def zero_area_dm_def example_dm_def point_load_def
          zero_area_element_def example_element_def)
  have sing: "L_clear zero_area_element = 0 \<or> (\<forall>F. linalg_solve example_lib
             (mid_stiffness
                (sub_element_stiffness example_lib (el_material zero_area_element)
                   (el_section zero_area_element)
                   (point_dist_raw zero_area_element point_load
                      - get_or (end_off_i zero_area_element) 0))
                (sub_element_stiffness example_lib (el_material zero_area_element)
                   (el_section zero_area_element)
                   (L_clear zero_area_element
                      - (point_dist_raw zero_area_element point_load
                           - get_or (end_off_i zero_area_element) 0)))) F = None)"
    by (simp add: sub_element_stiffness_def example_lib_def zero_area_element_def
          example_element_def mid_stiffness_no_area diag_solve_singular)
  have rel: "length (fst (releases zero_area_element)) + length (snd (releases zero_area_element)) \<le> 12"
    by (simp add: zero_area_element_def example_element_def no_release_def)
  have ni: "fst (node_indices zero_area_element) < length (nodes zero_area_dm)"
    and nj: "snd (node_indices zero_area_element) < length (nodes zero_area_dm)"
    and len: "length (zeros 12) = 6 * length (nodes zero_area_dm)"
    by (simp_all add: zero_area_element_def example_element_def zero_area_dm_def example_dm_def
          zeros_def)
  from singular_point_load_contributes_nothing [OF pt el sing rel example_shapes ni nj len, of "[2, 0, 0]"]
    pt el example_shapes
  show ?thesis by blast
qed

text \<open>
  C4, as the code has it. For a distributed load of local intensity \<open>w\<close> on a clear
  length \<open>Lc\<close> the vector of lines 271 to 277 holds \<open>- w * Lc / 2\<close> at both ends for each
  component (entries 0 and 6, 1 and 7, 2 and 8), the moments \<open>- w\<^sub>y * Lc\<^sup>2 / 12\<close> and
  \<open>w\<^sub>y * Lc\<^sup>2 / 12\<close> at entries 5 and 11, the moments \<open>w\<^sub>z * Lc\<^sup>2 / 12\<close> and
  \<open>- w\<^sub>z * Lc\<^sup>2 / 12\<close> at entries 4 and 10, and zero at the torsional entries 3 and 9.
\<close>

theorem dist_fef_local_entries:
  "dist_fef_local w Lc =
     [- (w ! 0 * Lc / 2), - (w ! 1 * Lc / 2), - (w ! 2 * Lc / 2),
      0, w ! 2 * Lc ^ 2 / 12, - (w ! 1 * Lc ^ 2 / 12),
      - (w ! 0 * Lc / 2), - (w ! 1 * Lc / 2), - (w ! 2 * Lc / 2),
      0, - (w ! 2 * Lc ^ 2 / 12), w ! 1 * Lc ^ 2 / 12]"
  by (simp add: dist_fef_local_def zeros_def numeral_eq_Suc Let_def)

text \<open>
  C4 as stated fails on the sign of the end forces: for the axial intensity 1 on a
  clear length 2 entry 0 is \<open>- 1\<close>, not \<open>w * L / 2 = 1\<close>.
\<close>

theorem dist_fef_local_sign_counterexample:
  "dist_fef_local [1, 0, 0] 2 ! 0 = - 1 \<and> dist_fef_local [1, 0, 0] 2 ! 0 \<noteq> 1 * 2 / 2"
  by (simp add: dist_fef_local_def zeros_def numeral_eq_Suc Let_def)

lemma vscale_one: "vscale w 1 = w"
  by (simp add: vscale_def)

text \<open>
  C8. \<^verbatim>\<open>_apply_projection_factor\<close>: in a frame other than Global (Local among them) the
  intensity is returned unchanged with the warning; in the Global frame, for a member
  whose horizontal length is at least 1e-9 and not above its total length, the intensity is
  scaled by horizontal length over total length; a horizontal length below 1e-9 gives
  the zero vector; and for end points of equal elevation, with the total length the
  distance between them, the factor is 1 and the intensity is returned as it is.
\<close>

theorem projection_factor_cases:
  "(coord \<noteq> ''Global'' \<longrightarrow> apply_projection_factor w p1 p2 Lt coord = (w, WarnNotGlobal)) \<and>
   (1 / 10 ^ 9 \<le> horizontal_length p1 p2 \<and> horizontal_length p1 p2 \<le> Lt \<longrightarrow>
      fst (apply_projection_factor w p1 p2 Lt ''Global'')
        = vscale w (horizontal_length p1 p2 / Lt)) \<and>
   (horizontal_length p1 p2 < 1 / 10 ^ 9 \<longrightarrow>
      fst (apply_projection_factor w p1 p2 Lt ''Global'') = [0, 0, 0]) \<and>
   (p1 ! 2 = p2 ! 2 \<and> Lt = member_length p1 p2 \<and> 1 / 10 ^ 9 \<le> horizontal_length p1 p2 \<longrightarrow>
      horizontal_length p1 p2 / Lt = 1 \<and>
      fst (apply_projection_factor w p1 p2 Lt ''Global'') = w)"
  by (auto simp add: apply_projection_factor_def horizontal_length_def member_length_def
        Let_def vscale_one)

theorem projection_factor_cases_witness:
  "apply_projection_factor [0, 0, - 2] [0, 0, 0] [3, 4, 0] 5 ''Local''
     = ([0, 0, - 2], WarnNotGlobal) \<and>
   horizontal_length [0, 0, 0] [3, 4, 0] = 5 \<and> member_length [0, 0, 0] [3, 4, 0] = 5 \<and>
   fst (apply_projection_factor [0, 0, - 2] [0, 0, 0] [3, 4, 0] 5 ''Global'') = [0, 0, - 2] \<and>
   horizontal_length [0, 0, 0] [3, 4, 3] = 5 \<and>
   fst (apply_projection_factor [0, 0, - 2] [0, 0, 0] [3, 4, 3] 10 ''Global'')
     = vscale [0, 0, - 2] (5 / 10) \<and>
   horizontal_length [1, 1, 0] [1, 1, 3] = 0 \<and>
   fst (apply_projection_factor [0, 0, - 2] [1, 1, 0] [1, 1, 3] 3 ''Global'') = [0, 0, 0]"
proof -
  have h: "horizontal_length [0, 0, 0] [3, 4, 0] = 5" "member_length [0, 0, 0] [3, 4, 0] = 5"
    "horizontal_length [0, 0, 0] [3, 4, 3] = 5" "horizontal_length [1, 1, 0] [1, 1, 3] = 0"
    by (simp_all add: horizontal_length_def member_length_def sqrt_25)
  from projection_factor_cases [of "''Local''" "[0, 0, - 2]" "[0, 0, 0]" "[3, 4, 0]" 5]
    projection_factor_cases [of "''Local''" "[0, 0, - 2]" "[0, 0, 0]" "[3, 4, 3]" 10]
    projection_factor_cases [of "''Local''" "[0, 0, - 2]" "[1, 1, 0]" "[1, 1, 3]" 3]
  show ?thesis
    by (simp add: h vscale_one)
qed

subsection \<open>The two-segment solve\<close>

lemma dot_sum:
  assumes "length u = n" and "length v = n"
  shows "dot u v = (\<Sum>j<n. u ! j * v ! j)"
proof -
  have "dot u v = (\<Sum>j = 0..<length (map2 (*) u v). map2 (*) u v ! j)"
    unfolding dot_def by (rule sum_list_sum_nth)
  also have "\<dots> = (\<Sum>j = 0..<n. u ! j * v ! j)"
    using assms by (intro sum.cong) simp_all
  finally show ?thesis
    by (simp add: atLeast0LessThan)
qed

lemma diag_solve_correct:
  assumes "diag_solve A b = Some u"
  shows "matvec A u = b"
proof -
  define n where "n = length b"
  from assms have lenA: "length A = n"
    and rows: "\<And>i. i < n \<Longrightarrow> length (A ! i) = n \<and> A ! i ! i \<noteq> 0 \<and> (\<forall>j<n. j = i \<or> A ! i ! j = 0)"
    and u: "u = map (\<lambda>i. b ! i / A ! i ! i) [0..<n]"
    by (auto simp: diag_solve_def n_def list_all_length split: if_splits)
  have lenu: "length u = n"
    by (simp add: u)
  have "matvec A u ! i = b ! i" if "i < n" for i
  proof -
    have "matvec A u ! i = dot (A ! i) u"
      using that lenA by (simp add: matvec_def)
    also have "\<dots> = (\<Sum>j<n. A ! i ! j * u ! j)"
      using rows [OF that] lenu by (intro dot_sum) simp_all
    also have "\<dots> = (\<Sum>j<n. if j = i then A ! i ! i * u ! i else 0)"
      using rows [OF that] by (intro sum.cong) auto
    also have "\<dots> = A ! i ! i * u ! i"
      using that by simp
    also have "\<dots> = b ! i"
      using rows [OF that] that by (simp add: u)
    finally show ?thesis .
  qed
  moreover have "length (matvec A u) = n"
    by (simp add: matvec_def lenA)
  ultimately show ?thesis
    by (simp add: list_eq_iff_nth_eq n_def)
qed

lemma assign_two_halves:
  assumes "length xs = 6" and "length ys = 6"
  shows "assign_slice (assign_slice (zeros 12) 0 6 xs) 6 12 ys = xs @ ys"
  using assms
  by (auto simp: assign_slice_def zeros_def list_eq_iff_nth_eq nth_append)

lemma mid_force_eq: "length Pv = 3 \<Longrightarrow> mid_force Pv = Pv @ [0, 0, 0]"
  by (auto simp: mid_force_def assign_slice_def zeros_def list_eq_iff_nth_eq nth_append nth_Cons split: nat.splits)

lemma length_block_rows: "length A = 12 \<Longrightarrow> length (block A 0 6 c0 c1) = 6 \<and> length (block A 6 12 c0 c1) = 6"
  by (simp add: block_def)

lemma example_solves: "solves_linear_systems example_lib"
  by (simp add: solves_linear_systems_def example_lib_def diag_solve_correct)

lemma mid_stiffness_unit_bars:
  "mid_stiffness (bar_stiffness 1) (bar_stiffness 1) =
     [[2, 0, 0, 0, 0, 0], [0, 2, 0, 0, 0, 0], [0, 0, 2, 0, 0, 0],
      [0, 0, 0, 2, 0, 0], [0, 0, 0, 0, 2, 0], [0, 0, 0, 0, 0, 2]]"
  by (simp add: mid_stiffness_def bar_stiffness_def block_def slice_def mat_add_def vadd_def upt_12)

lemma example_mid_solve:
  "linalg_solve example_lib
     (mid_stiffness
        (sub_element_stiffness example_lib (el_material example_element) (el_section example_element) 1)
        (sub_element_stiffness example_lib (el_material example_element) (el_section example_element)
           (2 - 1)))
     (mid_force [2, 0, 0]) = Some [1, 0, 0, 0, 0, 0]"
  by (simp add: sub_element_stiffness_def example_lib_def example_element_def
        mid_stiffness_unit_bars mid_force_eq diag_solve_def upt_rec)

text \<open>
  C3. For a load at distance \<open>a\<close> with \<open>0 < a < L\<close>, a force vector of three components
  and a two-segment system that \<^verbatim>\<open>np.linalg.solve\<close> solves, there is a displacement
  \<open>u_mid\<close> with \<open>(k_left[6:12,6:12] + k_right[0:6,0:6]) u_mid = F_mid\<close>, where \<open>F_mid\<close> is the
  force followed by three zeros, such that the first six entries of the vector returned
  by \<^verbatim>\<open>_get_exact_fef_via_stiffness\<close> are \<open>k_left[0:6,6:12] u_mid\<close> and the last six are
  \<open>k_right[6:12,0:6] u_mid\<close>; \<open>k_left\<close> and \<open>k_right\<close> are the Element Model's matrices for the
  lengths \<open>a\<close> and \<open>L - a\<close>.
\<close>

theorem exact_fef_two_segment:
  assumes span: "0 < a" "a < L"
    and shapes: "element_model_shapes X"
    and force: "length Pv = 3"
    and contract: "solves_linear_systems X"
    and regular: "linalg_solve X
                    (mid_stiffness (sub_element_stiffness X m s a) (sub_element_stiffness X m s (L - a)))
                    (mid_force Pv) \<noteq> None"
  shows "\<exists>u_mid.
           matvec (mat_add (block (sub_element_stiffness X m s a) 6 12 6 12)
                     (block (sub_element_stiffness X m s (L - a)) 0 6 0 6)) u_mid
             = Pv @ [0, 0, 0] \<and>
           slice (get_exact_fef_via_stiffness X L a Pv m s) 0 6
             = matvec (block (sub_element_stiffness X m s a) 0 6 6 12) u_mid \<and>
           slice (get_exact_fef_via_stiffness X L a Pv m s) 6 12
             = matvec (block (sub_element_stiffness X m s (L - a)) 6 12 0 6) u_mid"
proof -
  let ?kl = "sub_element_stiffness X m s a"
  let ?kr = "sub_element_stiffness X m s (L - a)"
  from regular obtain u where u: "linalg_solve X (mid_stiffness ?kl ?kr) (mid_force Pv) = Some u"
    by blast
  have len: "length ?kl = 12" "length ?kr = 12"
    using shapes by (simp_all add: element_model_shapes_def sub_element_stiffness_def is_mat_def)
  let ?Rs = "matvec (block ?kl 0 6 6 12) u"
  let ?Re = "matvec (block ?kr 6 12 0 6) u"
  have lr: "length ?Rs = 6" "length ?Re = 6"
    using len by (simp_all add: matvec_def length_block_rows)
  have fef: "get_exact_fef_via_stiffness X L a Pv m s = ?Rs @ ?Re"
    using span u by (simp add: get_exact_fef_via_stiffness_def Let_def assign_two_halves [OF lr])
  have "matvec (mid_stiffness ?kl ?kr) u = mid_force Pv"
    using contract u by (simp add: solves_linear_systems_def)
  then have "matvec (mat_add (block ?kl 6 12 6 12) (block ?kr 0 6 0 6)) u = Pv @ [0, 0, 0]"
    by (simp add: mid_stiffness_def mid_force_eq [OF force])
  moreover have "slice (get_exact_fef_via_stiffness X L a Pv m s) 0 6 = ?Rs"
    and "slice (get_exact_fef_via_stiffness X L a Pv m s) 6 12 = ?Re"
    using lr by (simp_all add: fef slice_def)
  ultimately show ?thesis
    by blast
qed

theorem exact_fef_two_segment_witness:
  "element_model_shapes example_lib \<and> solves_linear_systems example_lib \<and>
   (\<exists>u_mid.
      matvec (mat_add
                (block (sub_element_stiffness example_lib (el_material example_element)
                          (el_section example_element) 1) 6 12 6 12)
                (block (sub_element_stiffness example_lib (el_material example_element)
                          (el_section example_element) (2 - 1)) 0 6 0 6)) u_mid
        = [2, 0, 0] @ [0, 0, 0] \<and>
      slice (get_exact_fef_via_stiffness example_lib 2 1 [2, 0, 0] (el_material example_element)
               (el_section example_element)) 0 6
        = matvec (block (sub_element_stiffness example_lib (el_material example_element)
                           (el_section example_element) 1) 0 6 6 12) u_mid \<and>
      slice (get_exact_fef_via_stiffness example_lib 2 1 [2, 0, 0] (el_material example_element)
               (el_section example_element)) 6 12
        = matvec (block (sub_element_stiffness example_lib (el_material example_element)
                           (el_section example_element) (2 - 1)) 6 12 0 6) u_mid)"
proof -
  have span: "(0::real) < 1" "(1::real) < 2"
    by simp_all
  have force: "length [2, 0, 0 :: real] = 3"
    by simp
  have regular: "linalg_solve example_lib
      (mid_stiffness
         (sub_element_stiffness example_lib (el_material example_element)
            (el_section example_element) 1)
         (sub_element_stiffness example_lib (el_material example_element)
            (el_section example_element) (2 - 1)))
      (mid_force [2, 0, 0]) \<noteq> None"
    using example_mid_solve by simp
  from exact_fef_two_segment [OF span example_shapes force example_solves regular]
    example_shapes example_solves
  show ?thesis
    by blast
qed

end
